theory Spec2Isabelle
  imports Complex_Main "HOL-Library.Sublist" "HOL-Library.Multiset"
begin

section \<open>Domain model\<close>

text \<open>
  Modelled from the spec: the declarations of \<open>src/types\<close> (\<open>Network\<close>, \<open>Facilitator\<close> and the
  types they use) are not among the sources. \<open>build.ts\<close> names the three members of the
  \<open>Network\<close> enumeration in its explorer and icon tables and compares their string values
  with \<open>'base'\<close> and \<open>'polygon'\<close>; every field below is one that \<open>build.ts\<close> reads.
\<close>

datatype Network = BASE | POLYGON | SOLANA

text \<open>The string value of an enumeration member: what \<open>Object.keys\<close> returns for it.\<close>

fun network_value :: "Network \<Rightarrow> string" where
  "network_value BASE = ''base''"
| "network_value POLYGON = ''polygon''"
| "network_value SOLANA = ''solana''"

text \<open>
  A \<open>Date\<close> is its time value: milliseconds since the epoch, UTC (\<open>getTime()\<close>). Token
  references are carried on an address and never read by the generator.
\<close>

type_synonym Date = int
type_synonym TokenRef = string

record FacilitatorAddress =
  address :: string
  tokens :: "TokenRef list"
  dateOfFirstTransaction :: "Date option"

record FacilitatorMetadata =
  name :: string
  imageUrl :: string
  docsUrl :: string
  color :: string

text \<open>
  A JavaScript number: a finite number, identified with the decimal fraction it prints as, so
  that comparisons of finite numbers are those of the rationals (the two zeros are one); or
  \<open>NaN\<close>; or one of the infinities.
\<close>

datatype number = Finite rat | NaN | PosInfinity | NegInfinity

text \<open>
  \<open>fee\<close> is a number, and \<open>None\<close> in a record that has no such field, as the record of
  \<open>treasure\<close> has none: the generator then reads \<open>undefined\<close>. \<open>facilitatorUrl\<close> is only ever
  interpolated, so it is the text that the interpolation gives, \<open>undefined\<close> where the record
  has no such field. \<open>accessType\<close> is an optional string. \<open>addresses\<close> is an object keyed
  by network: its entries in property order (the order of insertion, as no key is an array
  index). Field \<open>id\<close> is \<open>facilitatorId\<close> and \<open>metadata.image\<close> is \<open>imageUrl\<close> here.
\<close>

record Facilitator =
  facilitatorId :: string
  metadata :: FacilitatorMetadata
  facilitatorUrl :: string
  fee :: "number option"
  accessType :: "string option"
  addresses :: "(Network \<times> FacilitatorAddress list) list"

definition Object_keys :: "(Network \<times> 'a) list \<Rightarrow> string list" where
  "Object_keys obj = map (\<lambda>(k, v). network_value k) obj"

definition Object_values :: "(Network \<times> 'a) list \<Rightarrow> 'a list" where
  "Object_values obj = map (\<lambda>(k, v). v) obj"

section \<open>Catalog aggregator\<close>

text \<open>\<open>Object.values(facilitator.addresses).reduce((sum, addresses) => sum + addresses.length, 0)\<close>\<close>

definition getTotalAddressesForFacilitator :: "Facilitator \<Rightarrow> nat" where
  "getTotalAddressesForFacilitator facilitator =
     foldl (\<lambda>sum addrs. sum + length addrs) 0 (Object_values (addresses facilitator))"

text \<open>
  A \<open>Set<string>\<close> as the list of its members in insertion order; \<open>add\<close> of a member
  already present changes nothing, and \<open>size\<close> is the length of the list.
\<close>

definition Set_add :: "string list \<Rightarrow> string \<Rightarrow> string list" where
  "Set_add s x = (if x \<in> set s then s else s @ [x])"

definition getTotalNetworks :: "Facilitator list \<Rightarrow> nat" where
  "getTotalNetworks allFacilitators =
     length (fold (\<lambda>facilitator networks.
                     fold (\<lambda>network nets. Set_add nets network)
                          (Object_keys (addresses facilitator)) networks)
                  allFacilitators [])"

definition getTotalAddresses :: "Facilitator list \<Rightarrow> nat" where
  "getTotalAddresses allFacilitators =
     fold (\<lambda>facilitator total.
             fold (\<lambda>addrs t. t + length addrs) (Object_values (addresses facilitator)) total)
          allFacilitators 0"

text \<open>
  \<open>allFacilitators.sort((a, b) => bTotal - aTotal)\<close>. \<open>Array.prototype.sort\<close> is stable
  and sorts the array in place. The comparator comes from a total preorder, so the result is
  the one stable ordering whatever algorithm the engine runs; it is computed here by
  insertion: an element is put in front of the first later element that need not come first.
\<close>

definition compareFn :: "Facilitator \<Rightarrow> Facilitator \<Rightarrow> int" where
  "compareFn a b =
     (let aTotal = getTotalAddressesForFacilitator a;
          bTotal = getTotalAddressesForFacilitator b
      in int bTotal - int aTotal)"

fun insert_sorted :: "('a \<Rightarrow> 'a \<Rightarrow> int) \<Rightarrow> 'a \<Rightarrow> 'a list \<Rightarrow> 'a list" where
  "insert_sorted cmp x [] = [x]"
| "insert_sorted cmp x (y # ys) =
     (if cmp x y \<le> 0 then x # y # ys else y # insert_sorted cmp x ys)"

fun Array_sort :: "('a \<Rightarrow> 'a \<Rightarrow> int) \<Rightarrow> 'a list \<Rightarrow> 'a list" where
  "Array_sort cmp [] = []"
| "Array_sort cmp (x # xs) = insert_sorted cmp x (Array_sort cmp xs)"

section \<open>Text primitives of the runtime\<close>

text \<open>
  Text is a sequence of bytes, the UTF-8 form in which the page is written.
  \<open>Array.prototype.join\<close>:
\<close>

fun join :: "string \<Rightarrow> string list \<Rightarrow> string" where
  "join sep [] = []"
| "join sep [x] = x"
| "join sep (x # y # ys) = x @ sep @ join sep (y # ys)"

text \<open>Decimal text of a natural number: \<open>toString\<close> of a length or a count.\<close>

definition digit_char :: "nat \<Rightarrow> char" where
  "digit_char d = ''0123456789'' ! d"

fun nat_toString :: "nat \<Rightarrow> string" where
  "nat_toString n =
     (if n < 10 then [digit_char n] else nat_toString (n div 10) @ [digit_char (n mod 10)])"

declare nat_toString.simps [simp del]

text \<open>
  \<open>Number::toString\<close> of ECMAScript at radix 10, on a finite number given as the decimal
  fraction it prints as: \<open>s\<close> holds its \<open>k\<close> significant digits and the value is
  \<open>s * 10 ^ (n - k)\<close>. \<open>decimal_scale\<close> finds the digits by moving the decimal point to the
  right (a number has at most 17 significant digits and an exponent above \<open>-324\<close>, so 400
  steps are enough for every number), \<open>strip_zeros\<close> drops the trailing zeros.
\<close>

fun decimal_scale :: "nat \<Rightarrow> rat \<Rightarrow> nat \<Rightarrow> nat \<times> nat" where
  "decimal_scale 0 x e = (nat \<lfloor>x\<rfloor>, e)"
| "decimal_scale (Suc fuel) x e =
     (if of_int \<lfloor>x\<rfloor> = x then (nat \<lfloor>x\<rfloor>, e) else decimal_scale fuel (x * 10) (Suc e))"

fun strip_zeros :: "nat \<Rightarrow> nat \<Rightarrow> nat \<times> nat" where
  "strip_zeros s z =
     (if 0 < s \<and> s mod 10 = 0 then strip_zeros (s div 10) (Suc z) else (s, z))"

declare strip_zeros.simps [simp del]

definition exponent_part :: "int \<Rightarrow> string" where
  "exponent_part n =
     ''e'' @ (if 0 \<le> n - 1 then ''+'' else ''-'') @ nat_toString (nat \<bar>n - 1\<bar>)"

definition positive_toString :: "rat \<Rightarrow> string" where
  "positive_toString x =
     (let (m, e) = decimal_scale 400 x 0;
          (s, z) = strip_zeros m 0;
          digits = nat_toString s;
          k = int (length digits);
          n = k + int z - int e
      in if k \<le> n \<and> n \<le> 21 then digits @ replicate (nat (n - k)) CHR ''0''
         else if 0 < n \<and> n \<le> 21 then take (nat n) digits @ ''.'' @ drop (nat n) digits
         else if - 6 < n \<and> n \<le> 0 then ''0.'' @ replicate (nat (- n)) CHR ''0'' @ digits
         else if k = 1 then digits @ exponent_part n
         else take 1 digits @ ''.'' @ drop 1 digits @ exponent_part n)"

definition Number_toString :: "rat \<Rightarrow> string" where
  "Number_toString x =
     (if x = 0 then ''0''
      else if x < 0 then ''-'' @ positive_toString (- x)
      else positive_toString x)"

text \<open>
  \<open>ToString\<close> of a value that is a number or \<open>undefined\<close>, as a template literal applies
  it, and the two tests that the card makes of the fee: \<open>fee === 0\<close> is false of \<open>NaN\<close>, of
  the infinities and of \<open>undefined\<close>; \<open>fee > 0\<close> turns \<open>undefined\<close> into \<open>NaN\<close> and is
  false of \<open>NaN\<close>.
\<close>

fun ToString :: "number option \<Rightarrow> string" where
  "ToString None = ''undefined''"
| "ToString (Some (Finite x)) = Number_toString x"
| "ToString (Some NaN) = ''NaN''"
| "ToString (Some PosInfinity) = ''Infinity''"
| "ToString (Some NegInfinity) = ''-Infinity''"

fun strict_equals_zero :: "number option \<Rightarrow> bool" where
  "strict_equals_zero (Some (Finite x)) = (x = 0)"
| "strict_equals_zero v = False"

fun greater_than_zero :: "number option \<Rightarrow> bool" where
  "greater_than_zero (Some (Finite x)) = (0 < x)"
| "greater_than_zero (Some PosInfinity) = True"
| "greater_than_zero v = False"

text \<open>
  \<open>toLocaleDateString('en-US', {year: 'numeric', month: 'short', day: 'numeric'})\<close>. No
  \<open>timeZone\<close> option is given, so the date shown is the calendar date in the time zone of
  the host that runs the build: \<open>localTZA t\<close> is that zone's offset from UTC, in
  milliseconds, at time \<open>t\<close>. \<open>civil_from_days\<close> is the proleptic Gregorian date of a day
  number counted from 1 January 1970, with the astronomical year; the year printed is the
  year of the era, so that the year before year 1 is printed as 1.
\<close>

definition msPerDay :: int where
  "msPerDay = 86400000"

definition civil_from_days :: "int \<Rightarrow> int \<times> int \<times> int" where
  "civil_from_days z0 =
     (let z = z0 + 719468;
          era = z div 146097;
          doe = z mod 146097;
          yoe = (doe - doe div 1460 + doe div 36524 - doe div 146096) div 365;
          doy = doe - (365 * yoe + yoe div 4 - yoe div 100);
          mp = (5 * doy + 2) div 153;
          d = doy - (153 * mp + 2) div 5 + 1;
          m = (if mp < 10 then mp + 3 else mp - 9);
          y = yoe + era * 400 + (if m \<le> 2 then 1 else 0)
      in (y, m, d))"

definition month_short :: "int \<Rightarrow> string" where
  "month_short m =
     (if m = 1 then ''Jan'' else if m = 2 then ''Feb'' else if m = 3 then ''Mar''
      else if m = 4 then ''Apr'' else if m = 5 then ''May'' else if m = 6 then ''Jun''
      else if m = 7 then ''Jul'' else if m = 8 then ''Aug'' else if m = 9 then ''Sep''
      else if m = 10 then ''Oct'' else if m = 11 then ''Nov'' else ''Dec'')"

definition toLocaleDateString :: "(int \<Rightarrow> int) \<Rightarrow> Date \<Rightarrow> string" where
  "toLocaleDateString localTZA t =
     (let (y, m, d) = civil_from_days ((t + localTZA t) div msPerDay)
      in month_short m @ '' '' @ nat_toString (nat d) @ '', '' @
         nat_toString (nat (if y \<le> 0 then 1 - y else y)))"

text \<open>
  \<open>String.prototype.replace\<close> with a string pattern and a string replacement: the first
  occurrence of the pattern is replaced, and the replacement text is expanded by
  \<open>GetSubstitution\<close>: \<open>$$\<close> stands for a dollar sign, \<open>$&\<close> for the matched text, \<open>$`\<close> for
  the text before the match and \<open>$'\<close> for the text after it. There are no capture groups,
  so every other use of \<open>$\<close> stays as it is.
\<close>

fun split_first :: "string \<Rightarrow> string \<Rightarrow> (string \<times> string) option" where
  "split_first pat [] = (if pat = [] then Some ([], []) else None)"
| "split_first pat (c # cs) =
     (if prefix pat (c # cs) then Some ([], drop (length pat) (c # cs))
      else map_option (\<lambda>(preceding, following). (c # preceding, following)) (split_first pat cs))"

fun GetSubstitution :: "string \<Rightarrow> string \<Rightarrow> string \<Rightarrow> string \<Rightarrow> string" where
  "GetSubstitution matched preceding following [] = []"
| "GetSubstitution matched preceding following [c] = [c]"
| "GetSubstitution matched preceding following (c # d # r) =
     (if c = CHR ''$'' \<and> d = CHR ''$'' then CHR ''$'' # GetSubstitution matched preceding following r
      else if c = CHR ''$'' \<and> d = CHR ''&'' then matched @ GetSubstitution matched preceding following r
      else if c = CHR ''$'' \<and> d = CHR 0x60 then preceding @ GetSubstitution matched preceding following r
      else if c = CHR ''$'' \<and> d = CHR 0x27 then following @ GetSubstitution matched preceding following r
      else c # GetSubstitution matched preceding following (d # r))"

definition String_replace :: "string \<Rightarrow> string \<Rightarrow> string \<Rightarrow> string" where
  "String_replace pat replacement s =
     (case split_first pat s of
        None \<Rightarrow> s
      | Some (preceding, following) \<Rightarrow> preceding @ GetSubstitution pat preceding following replacement @ following)"

section \<open>Link and icon resolver\<close>

fun getExplorerUrl :: "string \<Rightarrow> Network \<Rightarrow> string" where
  "getExplorerUrl addr BASE = ''https://basescan.org/address/'' @ addr"
| "getExplorerUrl addr POLYGON = ''https://polygonscan.com/address/'' @ addr"
| "getExplorerUrl addr SOLANA = ''https://explorer.solana.com/address/'' @ addr"

fun getNetworkIcon :: "Network \<Rightarrow> string" where
  "getNetworkIcon BASE = ''base.webp''"
| "getNetworkIcon POLYGON = ''polygon.webp''"
| "getNetworkIcon SOLANA = ''solana.webp''"

section \<open>Card renderer\<close>

text \<open>The lock (U+1F512) and the money bag (U+1F4B0), in UTF-8.\<close>

definition lock_icon :: string where
  "lock_icon = [CHR 0xF0, CHR 0x9F, CHR 0x94, CHR 0x92]"

definition money_icon :: string where
  "money_icon = [CHR 0xF0, CHR 0x9F, CHR 0x92, CHR 0xB0]"

text \<open>The argument \<open>access\<close> is \<open>None\<close> where the record has no \<open>accessType\<close>.\<close>

definition getAccessTypeIcons :: "string option \<Rightarrow> string" where
  \<open>getAccessTypeIcons access =
     (if access = Some ''gated_paid''
      then ''<span class="access-icon">'' @ lock_icon @ ''</span><span class="access-icon">'' @
           money_icon @ ''</span>''
      else if access = Some ''gated''
      then ''<span class="access-icon">'' @ lock_icon @ ''</span>''
      else [])\<close>

text \<open>
  The text that the inner loop of \<open>generateAddressList\<close> pushes for one address of one
  network; \<open>network\<close> is the key as \<open>Object.entries\<close> gives it, a string.
\<close>

definition addressItem :: "Network \<Rightarrow> FacilitatorAddress \<Rightarrow> string" where
  \<open>addressItem networkName addr =
     (let network = network_value networkName;
          explorerUrl = getExplorerUrl (address addr) networkName;
          networkIcon = getNetworkIcon networkName
      in
       ''\<newline>'' @
       ''        <div class="address-item">\<newline>'' @
       ''          <span class="network-label '' @
       network @
       ''">'' @
       network @
       ''</span>\<newline>'' @
       ''          <div class="address-text">'' @
       address addr @
       ''</div>\<newline>'' @
       ''          <div class="explorer-links">\<newline>'' @
       ''            <a href="'' @
       explorerUrl @
       ''" target="_blank" rel="noopener noreferrer" class="explorer-btn">\<newline>'' @
       ''              <img src="'' @
       networkIcon @
       ''" alt="'' @
       network @
       ''" class="explorer-icon" />\<newline>'' @
       ''              View on '' @
       (if network = ''base'' then ''BaseScan''
        else if network = ''polygon'' then ''PolygonScan'' else ''Solana Explorer'') @
       ''\<newline>'' @
       ''            </a>\<newline>'' @
       ''          </div>\<newline>'' @
       ''        </div>\<newline>'' @
       ''      '')\<close>

definition generateAddressList :: "Facilitator \<Rightarrow> string" where
  "generateAddressList facilitator =
     (let addressItems =
            fold (\<lambda>(network, addrs) items.
                    fold (\<lambda>addr items'. items' @ [addressItem network addr]) addrs items)
                 (addresses facilitator) []
      in join [] addressItems)"

text \<open>
  \<open>getFirstTransactionDate\<close>: a \<open>Date\<close> object is truthy, so every date that is present
  is pushed; \<open>Math.min\<close> runs on a list that is not empty.
\<close>

definition getFirstTransactionDate :: "(int \<Rightarrow> int) \<Rightarrow> Facilitator \<Rightarrow> string option" where
  "getFirstTransactionDate localTZA facilitator =
     (let dates =
            fold (\<lambda>addrs ds.
                    fold (\<lambda>addr ds'. case dateOfFirstTransaction addr of
                                        Some d \<Rightarrow> ds' @ [d]
                                      | None \<Rightarrow> ds')
                         addrs ds)
                 (Object_values (addresses facilitator)) []
      in case dates of
           [] \<Rightarrow> None
         | d # ds \<Rightarrow> Some (toLocaleDateString localTZA (fold min ds d)))"

text \<open>
  The conditional and mapped parts of the card template, each as a function of the value
  it interpolates. A string is falsy when it is empty, and \<open>null\<close> is \<open>None\<close>.
\<close>

definition accessIconsBlock :: "string \<Rightarrow> string" where
  \<open>accessIconsBlock accessIcons =
     (if accessIcons \<noteq> [] then ''<div class="access-icons">'' @ accessIcons @ ''</div>''
      else [])\<close>

definition feeDisplay :: "number option \<Rightarrow> string" where
  \<open>feeDisplay amount =
     (if greater_than_zero amount
      then ''<span class="fee-display">'' @ ToString amount @ ''% Fee</span>''
      else ''<span class="fee-display">0% Fee</span>'')\<close>

definition networkBadges :: "string list \<Rightarrow> string" where
  \<open>networkBadges networks =
     join [] (map (\<lambda>network. ''<span class="network-badge network-'' @ network @ ''">'' @
                               network @ ''</span>'') networks)\<close>

definition firstTransactionBlock :: "string option \<Rightarrow> string" where
  \<open>firstTransactionBlock firstDate =
     (case firstDate of
        None \<Rightarrow> []
      | Some d \<Rightarrow>
          if d = [] then []
          else
             ''\<newline>'' @
             ''        <div class="info-row">\<newline>'' @
             ''          <span class="info-label">First Transaction</span>\<newline>'' @
             ''          <span class="info-value">'' @
             d @
             ''</span>\<newline>'' @
             ''        </div>\<newline>'' @
             ''        '')\<close>

text \<open>
  \<open>generateCard\<close>. A missing \<open>accessType\<close> is falsy, as an empty one is.
\<close>

definition generateCard :: "(int \<Rightarrow> int) \<Rightarrow> Facilitator \<Rightarrow> string" where
  \<open>generateCard localTZA facilitator =
     (let networks = Object_keys (addresses facilitator);
          totalAddresses =
            foldl (\<lambda>sum addrs. sum + length addrs) 0 (Object_values (addresses facilitator));
          firstDate = getFirstTransactionDate localTZA facilitator;
          addressList = generateAddressList facilitator;
          accessIcons = getAccessTypeIcons (accessType facilitator);
          isFree = strict_equals_zero (fee facilitator);
          accessType_local =
            (case accessType facilitator of
               None \<Rightarrow> ''open''
             | Some a \<Rightarrow> if a = [] then ''open'' else a)
      in
       ''\<newline>'' @
       ''    <div class="card" id="card-'' @
       facilitatorId facilitator @
       ''" \<newline>'' @
       ''         data-networks="'' @
       join '','' networks @
       ''"\<newline>'' @
       ''         data-fee="'' @
       (if isFree then ''free'' else ''paid'') @
       ''"\<newline>'' @
       ''         data-access="'' @
       accessType_local @
       ''">\<newline>'' @
       ''      <div class="card-accent" style="background: '' @
       color (metadata facilitator) @
       '';"></div>\<newline>'' @
       ''      <div class="card-header">\<newline>'' @
       ''        <img \<newline>'' @
       ''          src="'' @
       imageUrl (metadata facilitator) @
       ''" \<newline>'' @
       ''          alt="'' @
       name (metadata facilitator) @
       '' logo" \<newline>'' @
       ''          class="card-logo"\<newline>'' @
       ''          onerror="this.style.display='none'"\<newline>'' @
       ''        />\<newline>'' @
       ''        <div class="card-title-section">\<newline>'' @
       ''          <div class="card-title">'' @
       name (metadata facilitator) @
       ''</div>\<newline>'' @
       ''          <div class="card-id">'' @
       facilitatorId facilitator @
       ''</div>\<newline>'' @
       ''        </div>\<newline>'' @
       ''      </div>\<newline>'' @
       ''      \<newline>'' @
       ''      <div class="card-content">\<newline>'' @
       ''        <div class="main-address-container">\<newline>'' @
       ''          <div class="main-address-label">\<newline>'' @
       ''            Facilitator API URL\<newline>'' @
       ''            '' @
       accessIconsBlock accessIcons @
       ''\<newline>'' @
       ''            '' @
       feeDisplay (fee facilitator) @
       ''\<newline>'' @
       ''          </div>\<newline>'' @
       ''          <div class="main-address-display">\<newline>'' @
       ''            <div class="main-address-text">'' @
       facilitatorUrl facilitator @
       ''</div>\<newline>'' @
       ''            <button class="copy-btn" onclick="copyAddress('' @ [CHR 0x27] @
       facilitatorUrl facilitator @
       ''', this)">\<newline>'' @
       ''              Copy\<newline>'' @
       ''            </button>\<newline>'' @
       ''          </div>\<newline>'' @
       ''        </div>\<newline>'' @
       ''\<newline>'' @
       ''        <div class="info-row">\<newline>'' @
       ''          <span class="info-label">Networks</span>\<newline>'' @
       ''          <div class="networks">\<newline>'' @
       ''            '' @
       networkBadges networks @
       ''\<newline>'' @
       ''          </div>\<newline>'' @
       ''        </div>\<newline>'' @
       ''        \<newline>'' @
       ''        <div class="info-row-wrapper">\<newline>'' @
       ''          <div class="info-row addresses-interactive" onclick="toggleAddresses('' @ [CHR 0x27] @
       facilitatorId facilitator @
       ''')">\<newline>'' @
       ''            <span class="info-label">Addresses</span>\<newline>'' @
       ''            <span class="addresses-count">'' @
       nat_toString totalAddresses @
       ''</span>\<newline>'' @
       ''          </div>\<newline>'' @
       ''          \<newline>'' @
       ''          <div class="address-list">\<newline>'' @
       ''            '' @
       addressList @
       ''\<newline>'' @
       ''          </div>\<newline>'' @
       ''        </div>\<newline>'' @
       ''        \<newline>'' @
       ''        '' @
       firstTransactionBlock firstDate @
       ''\<newline>'' @
       ''        \<newline>'' @
       ''        <a href="'' @
       docsUrl (metadata facilitator) @
       ''" target="_blank" class="card-link">\<newline>'' @
       ''          View Documentation\<newline>'' @
       ''        </a>\<newline>'' @
       ''      </div>\<newline>'' @
       ''    </div>\<newline>'' @
       ''  '')\<close>

section \<open>Template compositor\<close>

text \<open>
  The first statement of \<open>generateHTML\<close>: sort, render, join. The sort works on the
  catalog array itself, so the array as the sort leaves it is returned with the text.
\<close>

definition facilitatorCards ::
  "(int \<Rightarrow> int) \<Rightarrow> Facilitator list \<Rightarrow> string \<times> Facilitator list" where
  "facilitatorCards localTZA allFacilitators0 =
     (let allFacilitators = Array_sort compareFn allFacilitators0
      in (join ''\<newline>'' (map (generateCard localTZA) allFacilitators), allFacilitators))"

text \<open>
  \<open>generateHTML\<close>, given the text of the template file: the page, and the catalog as
  the run leaves it. The totals are computed after the sort, from the sorted array.
\<close>

definition generateHTML ::
  "(int \<Rightarrow> int) \<Rightarrow> string \<Rightarrow> Facilitator list \<Rightarrow> string \<times> Facilitator list" where
  "generateHTML localTZA template allFacilitators0 =
     (let (cards, allFacilitators) = facilitatorCards localTZA allFacilitators0;
          html =
            String_replace ''{{FACILITATOR_CARDS}}'' cards
              (String_replace ''{{TOTAL_ADDRESSES}}'' (nat_toString (getTotalAddresses allFacilitators))
                (String_replace ''{{TOTAL_NETWORKS}}'' (nat_toString (getTotalNetworks allFacilitators))
                  (String_replace ''{{TOTAL_FACILITATORS}}'' (nat_toString (length allFacilitators))
                     template)))
      in (html, allFacilitators))"

section \<open>Specification-side notions\<close>

text \<open>
  The totals as the specification words them: the sum of the lengths of the address
  sequences over every facilitator and network key, and the number of distinct network
  keys of the catalog.
\<close>

definition spec_totalAddresses :: "Facilitator list \<Rightarrow> nat" where
  "spec_totalAddresses catalog =
     (\<Sum>f\<leftarrow>catalog. \<Sum>(network, addrs)\<leftarrow>addresses f. length addrs)"

definition spec_totalNetworks :: "Facilitator list \<Rightarrow> nat" where
  "spec_totalNetworks catalog = card (\<Union>f\<in>set catalog. fst ` set (addresses f))"

text \<open>\<open>addressCountOf\<close>: the sum of the lengths of the address sequences of one record.\<close>

definition spec_addressCountOf :: "Facilitator \<Rightarrow> nat" where
  "spec_addressCountOf f = (\<Sum>(network, addrs)\<leftarrow>addresses f. length addrs)"

text \<open>
  The order that the ordering policy asks for: no record has fewer addresses than a record
  after it.
\<close>

definition spec_descending :: "Facilitator list \<Rightarrow> bool" where
  "spec_descending fs = sorted_wrt (\<lambda>a b. spec_addressCountOf b \<le> spec_addressCountOf a) fs"

section \<open>Sample data\<close>

text \<open>
  Time zones of a build host: UTC, and Eastern Standard Time (five hours behind UTC), which
  New York keeps on both dates used below.
\<close>

definition utc :: "int \<Rightarrow> int" where
  "utc t = 0"

definition eastern_standard :: "int \<Rightarrow> int" where
  "eastern_standard t = - 18000000"

text \<open>
  \<open>new Date('2025-11-06')\<close> and \<open>new Date('2025-03-01')\<close>: a date-only text is midnight UTC.
\<close>

definition date_2025_11_06 :: Date where
  "date_2025_11_06 = 1762387200000"

definition date_2025_03_01 :: Date where
  "date_2025_03_01 = 1740787200000"

definition sample_metadata :: "string \<Rightarrow> FacilitatorMetadata" where
  "sample_metadata n =
     \<lparr>name = n, imageUrl = ''https://images.treasure.lol/treasure.png'',
      docsUrl = ''https://x402.treasure.lol/facilitator'', color = ''#DC2626''\<rparr>"

definition dated_address :: "string \<Rightarrow> Date \<Rightarrow> FacilitatorAddress" where
  "dated_address a d = \<lparr>address = a, tokens = [''USDC''], dateOfFirstTransaction = Some d\<rparr>"

definition undated_address :: "string \<Rightarrow> FacilitatorAddress" where
  "undated_address a = \<lparr>address = a, tokens = [''USDC''], dateOfFirstTransaction = None\<rparr>"

text \<open>A facilitator with one address on one network, and one with three on two networks.\<close>

definition small_facilitator :: Facilitator where
  "small_facilitator =
     \<lparr>facilitatorId = ''small'', metadata = sample_metadata ''Small'',
      facilitatorUrl = ''https://small.example/facilitator'', fee = Some (Finite 0),
      accessType = None,
      addresses = [(BASE, [undated_address ''0xe07e9cbf9a55d02e3ac356ed4706353d98c5a618''])]\<rparr>"

definition large_facilitator :: Facilitator where
  "large_facilitator =
     \<lparr>facilitatorId = ''large'', metadata = sample_metadata ''Large'',
      facilitatorUrl = ''https://large.example/facilitator'', fee = Some (Finite (5 / 2)),
      accessType = Some ''gated_paid'',
      addresses =
        [(BASE, [dated_address ''0x01'' date_2025_11_06, undated_address ''0x02'']),
         (SOLANA, [dated_address ''So11'' date_2025_03_01])]\<rparr>"

definition gated_facilitator :: Facilitator where
  "gated_facilitator =
     small_facilitator\<lparr>facilitatorId := ''gated'', accessType := Some ''gated''\<rparr>"

definition negative_fee_facilitator :: Facilitator where
  "negative_fee_facilitator =
     small_facilitator\<lparr>facilitatorId := ''rebate'', fee := Some (Finite (- 1))\<rparr>"

text \<open>A facilitator whose fee is \<open>NaN\<close>, and one whose record has no fee.\<close>

definition nan_fee_facilitator :: Facilitator where
  "nan_fee_facilitator = small_facilitator\<lparr>facilitatorId := ''nan'', fee := Some NaN\<rparr>"

definition no_fee_facilitator :: Facilitator where
  "no_fee_facilitator =
     small_facilitator\<lparr>facilitatorId := ''treasure'', facilitatorUrl := ''undefined'',
       fee := None\<rparr>"


text \<open>A facilitator whose name has two dollar signs in a row.\<close>

definition dollar_facilitator :: Facilitator where
  "dollar_facilitator =
     small_facilitator\<lparr>facilitatorId := ''cash'', metadata := sample_metadata ''Ca$$h''\<rparr>"

section \<open>Notions for stating the claims\<close>

text \<open>A fee that is strictly negative: a finite number below zero, or minus infinity.\<close>

fun negative_fee :: "number option \<Rightarrow> bool" where
  "negative_fee (Some (Finite x)) = (x < 0)"
| "negative_fee (Some NegInfinity) = True"
| "negative_fee v = False"

text \<open>The number of places of a text at which a pattern occurs.\<close>

fun occurrences :: "'a list \<Rightarrow> 'a list \<Rightarrow> nat" where
  "occurrences pat [] = (if pat = [] then 1 else 0)"
| "occurrences pat (x # xs) = (if prefix pat (x # xs) then 1 else 0) + occurrences pat xs"

text \<open>
  Both icons begin with the byte \<open>0xF0\<close>. A text is plain when it has no such byte, that
  is, no character beyond U+FFFF, and a record has plain fields when every text that the
  card takes from it is plain: only then are the icons in its card those that the renderer
  puts there.
\<close>

definition plain_text :: "string \<Rightarrow> bool" where
  "plain_text s = (CHR 0xF0 \<notin> set s)"

definition plain_fields :: "Facilitator \<Rightarrow> bool" where
  "plain_fields f =
     (plain_text (facilitatorId f) \<and> plain_text (name (metadata f)) \<and>
      plain_text (imageUrl (metadata f)) \<and> plain_text (docsUrl (metadata f)) \<and>
      plain_text (color (metadata f)) \<and> plain_text (facilitatorUrl f) \<and>
      (case accessType f of None \<Rightarrow> True | Some a \<Rightarrow> plain_text a) \<and>
      list_all (\<lambda>(network, addrs). list_all (\<lambda>addr. plain_text (address addr)) addrs)
        (addresses f))"

text \<open>A text that holds \<open>x\<close> between two plain texts.\<close>

definition framed :: "string \<Rightarrow> string \<Rightarrow> bool" where
  "framed x s = (\<exists>pre post. s = pre @ x @ post \<and> plain_text pre \<and> plain_text post)"

text \<open>
  The text with which a card begins, up to its \<open>data-fee\<close> attribute, and the row of the
  card that holds the label, the access icons and the fee, as the template has them.
\<close>

definition card_start :: "Facilitator \<Rightarrow> string \<Rightarrow> string" where
  \<open>card_start f feeClass =
     ''\<newline>'' @
     ''    <div class="card" id="card-'' @
     facilitatorId f @
     ''" \<newline>'' @
     ''         data-networks="'' @
     join '','' (Object_keys (addresses f)) @
     ''"\<newline>'' @
     ''         data-fee="'' @
     feeClass @
     ''"\<newline>''\<close>

definition label_row :: "string \<Rightarrow> string \<Rightarrow> string" where
  \<open>label_row icons feeText =
     ''            Facilitator API URL\<newline>'' @
     ''            '' @
     icons @
     ''\<newline>'' @
     ''            '' @
     feeText @
     ''\<newline>'' @
     ''          </div>\<newline>''\<close>




text \<open>
  The text with which a card ends, from the end of the address list on, and the dates of
  first transaction that the addresses of a record carry, in the order of the record.
\<close>

definition card_end :: "string \<Rightarrow> string \<Rightarrow> string" where
  \<open>card_end firstTransaction docs =
     ''\<newline>'' @
     ''          </div>\<newline>'' @
     ''        </div>\<newline>'' @
     ''        \<newline>'' @
     ''        '' @
     firstTransaction @
     ''\<newline>'' @
     ''        \<newline>'' @
     ''        <a href="'' @
     docs @
     ''" target="_blank" class="card-link">\<newline>'' @
     ''          View Documentation\<newline>'' @
     ''        </a>\<newline>'' @
     ''      </div>\<newline>'' @
     ''    </div>\<newline>'' @
     ''  ''\<close>

definition all_dates :: "Facilitator \<Rightarrow> Date list" where
  "all_dates f = List.map_filter dateOfFirstTransaction (concat (map snd (addresses f)))"

text \<open>A text that holds \<open>x\<close> after a text without the character \<open>c\<close>.\<close>

definition preceded :: "char \<Rightarrow> string \<Rightarrow> string \<Rightarrow> bool" where
  "preceded c x s = (\<exists>pre post. s = pre @ x @ post \<and> c \<notin> set pre)"

text \<open>
  The substitution that the compositor is specified to make: the text goes, as it is, in the
  place of the first occurrence of the placeholder, and a text without the placeholder stays
  as it is.
\<close>

definition replace_first :: "string \<Rightarrow> string \<Rightarrow> string \<Rightarrow> string" where
  "replace_first pat r s =
     (case split_first pat s of None \<Rightarrow> s | Some (a, b) \<Rightarrow> a @ r @ b)"

section \<open>Aggregate totals\<close>

lemma fold_add_length:
  "fold (\<lambda>addrs t. t + length addrs) xs (acc::nat) = acc + (\<Sum>addrs\<leftarrow>xs. length addrs)"
  by (induction xs arbitrary: acc) auto

lemma getTotalAddresses_fold:
  "fold (\<lambda>facilitator total.
           fold (\<lambda>addrs t. t + length addrs) (Object_values (addresses facilitator)) total)
        catalog acc
   = acc + (\<Sum>f\<leftarrow>catalog. \<Sum>addrs\<leftarrow>Object_values (addresses f). length addrs)"
  by (induction catalog arbitrary: acc) (auto simp: fold_add_length)

lemma sum_list_Object_values:
  "(\<Sum>addrs\<leftarrow>Object_values obj. length addrs) = (\<Sum>(network, addrs)\<leftarrow>obj. length addrs)"
  by (induction obj) (auto simp: Object_values_def)

lemma Set_add_distinct: "distinct s \<Longrightarrow> distinct (Set_add s x)"
  by (simp add: Set_add_def)

lemma Set_add_set: "set (Set_add s x) = insert x (set s)"
  by (auto simp: Set_add_def)

lemma fold_Set_add:
  "distinct s \<Longrightarrow>
   distinct (fold (\<lambda>network nets. Set_add nets network) ks s) \<and>
   set (fold (\<lambda>network nets. Set_add nets network) ks s) = set s \<union> set ks"
  by (induction ks arbitrary: s) (auto simp: Set_add_distinct Set_add_set)

lemma fold_networks:
  "distinct s \<Longrightarrow>
   distinct (fold (\<lambda>facilitator networks.
                     fold (\<lambda>network nets. Set_add nets network)
                          (Object_keys (addresses facilitator)) networks) catalog s) \<and>
   set (fold (\<lambda>facilitator networks.
                     fold (\<lambda>network nets. Set_add nets network)
                          (Object_keys (addresses facilitator)) networks) catalog s)
     = set s \<union> (\<Union>f\<in>set catalog. set (Object_keys (addresses f)))"
proof (induction catalog arbitrary: s)
  case Nil
  then show ?case by simp
next
  case (Cons f catalog)
  let ?s' = "fold (\<lambda>network nets. Set_add nets network) (Object_keys (addresses f)) s"
  from Cons.prems have d: "distinct ?s'" and e: "set ?s' = set s \<union> set (Object_keys (addresses f))"
    using fold_Set_add [of s "Object_keys (addresses f)"] by simp_all
  from Cons.IH [OF d] e show ?case by auto
qed

lemma inj_network_value: "inj network_value"
proof (rule injI)
  fix a b assume "network_value a = network_value b"
  then show "a = b" by (cases a; cases b) simp_all
qed

lemma set_Object_keys: "set (Object_keys obj) = network_value ` fst ` set obj"
  by (auto simp: Object_keys_def image_iff split: prod.splits) force

lemma getTotalAddresses_sum: "getTotalAddresses catalog = spec_totalAddresses catalog"
  by (simp add: getTotalAddresses_def spec_totalAddresses_def getTotalAddresses_fold
      sum_list_Object_values)

lemma getTotalNetworks_card: "getTotalNetworks catalog = spec_totalNetworks catalog"
proof -
  let ?nets = "fold (\<lambda>facilitator networks.
                     fold (\<lambda>network nets. Set_add nets network)
                          (Object_keys (addresses facilitator)) networks) catalog []"
  have d: "distinct ?nets"
    and s: "set ?nets = (\<Union>f\<in>set catalog. set (Object_keys (addresses f)))"
    using fold_networks [of "[]" catalog] by simp_all
  have "length ?nets = card (set ?nets)"
    using d by (simp add: distinct_card)
  also have "set ?nets = network_value ` (\<Union>f\<in>set catalog. fst ` set (addresses f))"
    by (simp add: s set_Object_keys image_UN)
  also have "card \<dots> = card (\<Union>f\<in>set catalog. fst ` set (addresses f))"
    by (rule card_image) (rule inj_on_subset [OF inj_network_value subset_UNIV])
  finally show ?thesis
    by (simp add: getTotalNetworks_def spec_totalNetworks_def)
qed

text \<open>
  Claim C1. For every catalog, the aggregator's \<open>totalAddresses\<close> is the sum of the lengths
  of the address sequences over every facilitator and every network key of its addresses
  map, and \<open>totalNetworks\<close> is the number of distinct network keys that appear in any
  facilitator's addresses map: a network that several facilitators share counts once.
\<close>

theorem totals_match_spec:
  "getTotalAddresses catalog = spec_totalAddresses catalog \<and>
   getTotalNetworks catalog = spec_totalNetworks catalog"
  using getTotalAddresses_sum getTotalNetworks_card by (rule conjI)

section \<open>Ordering of the cards\<close>

lemma foldl_add_length:
  "foldl (\<lambda>sum addrs. sum + length addrs) (acc::nat) xs = acc + (\<Sum>addrs\<leftarrow>xs. length addrs)"
  by (induction xs arbitrary: acc) auto

lemma getTotalAddressesForFacilitator_sum:
  "getTotalAddressesForFacilitator f = spec_addressCountOf f"
  by (simp add: getTotalAddressesForFacilitator_def spec_addressCountOf_def foldl_add_length
      sum_list_Object_values)

lemma compareFn_le:
  "compareFn a b \<le> 0 \<longleftrightarrow> spec_addressCountOf b \<le> spec_addressCountOf a"
  by (simp add: compareFn_def Let_def getTotalAddressesForFacilitator_sum)

lemma set_insert_sorted: "set (insert_sorted cmp x ys) = insert x (set ys)"
  by (induction ys) auto

lemma mset_insert_sorted: "mset (insert_sorted cmp x ys) = add_mset x (mset ys)"
  by (induction ys) auto

lemma mset_Array_sort: "mset (Array_sort cmp xs) = mset xs"
  by (induction xs) (auto simp: mset_insert_sorted)

lemma descending_insert_sorted:
  "spec_descending ys \<Longrightarrow> spec_descending (insert_sorted compareFn x ys)"
  unfolding spec_descending_def
  by (induction ys) (auto simp: compareFn_le set_insert_sorted)

lemma descending_Array_sort: "spec_descending (Array_sort compareFn xs)"
proof (induction xs)
  case Nil
  show ?case by (simp add: spec_descending_def)
next
  case (Cons x xs)
  then show ?case by (simp add: descending_insert_sorted)
qed

text \<open>
  Stability: inserting a record never moves it past a record with the same count, since
  the records it passes have strictly more addresses.
\<close>

lemma filter_insert_sorted:
  "filter (\<lambda>f. spec_addressCountOf f = k) (insert_sorted compareFn x ys) =
   (if spec_addressCountOf x = k then x # filter (\<lambda>f. spec_addressCountOf f = k) ys
    else filter (\<lambda>f. spec_addressCountOf f = k) ys)"
  by (induction ys) (auto simp: compareFn_le)

lemma filter_Array_sort:
  "filter (\<lambda>f. spec_addressCountOf f = k) (Array_sort compareFn xs) =
   filter (\<lambda>f. spec_addressCountOf f = k) xs"
  by (induction xs) (auto simp: filter_insert_sorted)

lemma Array_sort_descending_id:
  "spec_descending xs \<Longrightarrow> Array_sort compareFn xs = xs"
proof (induction xs)
  case Nil
  then show ?case by simp
next
  case (Cons x xs)
  then have "Array_sort compareFn xs = xs"
    by (simp add: spec_descending_def)
  moreover have "insert_sorted compareFn x xs = x # xs"
    using Cons.prems by (cases xs) (auto simp: compareFn_le spec_descending_def)
  ultimately show ?case by simp
qed

lemma Array_sort_idem:
  "Array_sort compareFn (Array_sort compareFn xs) = Array_sort compareFn xs"
  by (rule Array_sort_descending_id) (rule descending_Array_sort)


section \<open>Repeated runs and the catalog\<close>

text \<open>
  A second run of the pipeline, on the same template and on the catalog as the first run
  left it, on a host in the same time zone, gives the same page and leaves the same catalog.
\<close>

lemma generateHTML_repeatable:
  "generateHTML localTZA template (snd (generateHTML localTZA template catalog)) =
   generateHTML localTZA template catalog"
  by (simp add: generateHTML_def facilitatorCards_def Let_def Array_sort_idem)

lemma sample_counts:
  "spec_addressCountOf small_facilitator = 1" "spec_addressCountOf large_facilitator = 3"
  by (simp_all add: spec_addressCountOf_def small_facilitator_def large_facilitator_def)

lemma snd_generateHTML:
  "snd (generateHTML localTZA template catalog) = Array_sort compareFn catalog"
  by (simp add: generateHTML_def facilitatorCards_def Let_def)

text \<open>
  Claim C9, as stated: generation leaves the catalog sequence as it was. It does not: the
  sort is in place, and a catalog that lists a facilitator with one address before one
  with three comes out with the two exchanged.
\<close>

theorem catalog_reordered_counterexample:
  "snd (generateHTML utc [] [small_facilitator, large_facilitator]) \<noteq>
   [small_facilitator, large_facilitator]"
proof -
  have "small_facilitator \<noteq> large_facilitator"
    by (simp add: small_facilitator_def large_facilitator_def)
  then show ?thesis
    by (simp add: snd_generateHTML compareFn_def Let_def getTotalAddressesForFacilitator_sum
        sample_counts)
qed

text \<open>
  Claim C9, amended. Generation changes no record and keeps the records of the catalog,
  each as often as before; it puts the sequence into the stable descending order of address
  count, and so leaves unchanged a catalog that is in descending order already.
\<close>

theorem catalog_after_generation:
  "mset (snd (generateHTML localTZA template catalog)) = mset catalog \<and>
   spec_descending (snd (generateHTML localTZA template catalog)) \<and>
   (\<forall>k. filter (\<lambda>f. spec_addressCountOf f = k) (snd (generateHTML localTZA template catalog)) =
        filter (\<lambda>f. spec_addressCountOf f = k) catalog) \<and>
   (spec_descending catalog \<longrightarrow> snd (generateHTML localTZA template catalog) = catalog)"
  by (simp add: snd_generateHTML mset_Array_sort descending_Array_sort filter_Array_sort
      Array_sort_descending_id)

theorem catalog_after_generation_witness:
  "spec_descending [large_facilitator, small_facilitator] \<and>
   snd (generateHTML utc [] [large_facilitator, small_facilitator]) =
     [large_facilitator, small_facilitator]"
proof -
  have d: "spec_descending [large_facilitator, small_facilitator]"
    by (simp add: spec_descending_def sample_counts)
  with catalog_after_generation [of utc "[]" "[large_facilitator, small_facilitator]"]
  show ?thesis by simp
qed

section \<open>Structure of the card\<close>

lemma sublist_skip: "sublist x b \<Longrightarrow> sublist x (a @ b)"
  by (auto simp: sublist_def) (metis append_assoc)

lemma prefix_same: "prefix xs ys \<Longrightarrow> prefix (z @ xs) (z @ ys)"
  by simp

lemma prefix_self_append: "prefix xs (xs @ ys)"
  by simp

lemma card_starts:
  "prefix (card_start f (if strict_equals_zero (fee f) then ''free'' else ''paid''))
     (generateCard tz f)"
  unfolding card_start_def generateCard_def Let_def
  by ((rule prefix_same)+, rule prefix_self_append)

lemma card_label_row:
  "sublist (label_row (accessIconsBlock (getAccessTypeIcons (accessType f))) (feeDisplay (fee f)))
     (generateCard tz f)"
  unfolding label_row_def generateCard_def Let_def
  by ((rule prefix_imp_sublist, (rule prefix_same)+, rule prefix_self_append) | rule sublist_skip)+

section \<open>Access icons\<close>

lemma plain_text_simps [simp]:
  "plain_text []"
  "plain_text (c # s) \<longleftrightarrow> c \<noteq> CHR 0xF0 \<and> plain_text s"
  "plain_text (a @ b) \<longleftrightarrow> plain_text a \<and> plain_text b"
  by (auto simp: plain_text_def)

lemma plain_text_subset: "set a \<subseteq> set b \<Longrightarrow> plain_text b \<Longrightarrow> plain_text a"
  by (auto simp: plain_text_def)

lemma plain_join: "list_all plain_text xs \<Longrightarrow> plain_text sep \<Longrightarrow> plain_text (join sep xs)"
  by (induction sep xs rule: join.induct) auto

lemma digit_char_in: "d < 10 \<Longrightarrow> digit_char d \<in> set ''0123456789''"
  unfolding digit_char_def by (rule nth_mem) simp

lemma set_nat_toString: "set (nat_toString n) \<subseteq> set ''0123456789''"
proof (induction n rule: nat_toString.induct)
  case (1 n)
  show ?case
  proof (cases "n < 10")
    case True
    then show ?thesis using digit_char_in [of n] by (subst nat_toString.simps) simp
  next
    case False
    have "n mod 10 < 10" by simp
    from digit_char_in [OF this] 1 [OF False] False show ?thesis
      by (subst nat_toString.simps) simp
  qed
qed

lemma plain_nat_toString [simp]: "plain_text (nat_toString n)"
  by (rule plain_text_subset [OF set_nat_toString]) simp

lemma plain_take_drop: "plain_text s \<Longrightarrow> plain_text (take n s) \<and> plain_text (drop n s)"
  by (metis append_take_drop_id plain_text_simps(3))

lemma plain_replicate [simp]: "plain_text (replicate n c) \<longleftrightarrow> n = 0 \<or> c \<noteq> CHR 0xF0"
  by (auto simp: plain_text_def)

lemma plain_positive_toString [simp]: "plain_text (positive_toString x)"
  by (simp add: positive_toString_def Let_def exponent_part_def plain_take_drop split: prod.splits)

lemma plain_Number_toString [simp]: "plain_text (Number_toString x)"
  by (simp add: Number_toString_def)

lemma plain_ToString [simp]: "plain_text (ToString v)"
  by (induction v rule: ToString.induct) simp_all

lemma plain_feeDisplay [simp]: "plain_text (feeDisplay v)"
  by (simp add: feeDisplay_def)

lemma plain_toLocaleDateString [simp]: "plain_text (toLocaleDateString tz t)"
  by (simp add: toLocaleDateString_def month_short_def Let_def split: prod.splits)

lemma plain_firstTransactionBlock [simp]:
  "plain_text (firstTransactionBlock (getFirstTransactionDate tz f))"
  by (simp add: firstTransactionBlock_def getFirstTransactionDate_def Let_def split: list.splits)

lemma plain_network_value [simp]: "plain_text (network_value n)"
  by (cases n) simp_all

lemma plain_Object_keys [simp]: "list_all plain_text (Object_keys obj)"
  by (induction obj) (auto simp: Object_keys_def)

lemma plain_networkBadges [simp]: "plain_text (networkBadges (Object_keys obj))"
  unfolding networkBadges_def
  by (rule plain_join) (induction obj, auto simp: Object_keys_def)

lemma plain_addressItem: "plain_text (address addr) \<Longrightarrow> plain_text (addressItem n addr)"
  by (cases n) (simp_all add: addressItem_def Let_def)

lemma fold_push: "fold (\<lambda>x acc. acc @ [g x]) xs acc0 = acc0 @ map g xs"
  by (induction xs arbitrary: acc0) auto

lemma addressItems_fold:
  "fold (\<lambda>(network, addrs) items.
           fold (\<lambda>addr items'. items' @ [addressItem network addr]) addrs items) obj acc
   = acc @ concat (map (\<lambda>(network, addrs). map (addressItem network) addrs) obj)"
  by (induction obj arbitrary: acc) (auto simp: fold_push)

lemma generateAddressList_concat:
  "generateAddressList f =
     join [] (concat (map (\<lambda>(network, addrs). map (addressItem network) addrs) (addresses f)))"
  by (simp add: generateAddressList_def Let_def addressItems_fold)

lemma plain_generateAddressList:
  assumes "list_all (\<lambda>(network, addrs). list_all (\<lambda>addr. plain_text (address addr)) addrs)
             (addresses f)"
  shows "plain_text (generateAddressList f)"
  unfolding generateAddressList_concat
proof (rule plain_join)
  show "list_all plain_text
          (concat (map (\<lambda>(network, addrs). map (addressItem network) addrs) (addresses f)))"
    using assms by (induction "addresses f" arbitrary: f)
      (auto simp: list_all_iff plain_addressItem)
qed simp

lemma occurrences_skip:
  "x \<notin> set xs \<Longrightarrow> occurrences (x # p) (xs @ ys) = occurrences (x # p) ys"
  by (induction xs) auto

lemma occurrences_none: "x \<notin> set xs \<Longrightarrow> occurrences (x # p) xs = 0"
  by (induction xs) auto

lemma occurrences_plain:
  "plain_text xs \<Longrightarrow> occurrences (CHR 0xF0 # p) (xs @ ys) = occurrences (CHR 0xF0 # p) ys"
  by (simp add: plain_text_def occurrences_skip)

lemma occurrences_plain_end:
  "plain_text xs \<Longrightarrow> occurrences (CHR 0xF0 # p) xs = 0"
  by (simp add: plain_text_def occurrences_none)

lemma framed_skip: "plain_text a \<Longrightarrow> framed x b \<Longrightarrow> framed x (a @ b)"
  unfolding framed_def
proof -
  assume a: "plain_text a" and "\<exists>pre post. b = pre @ x @ post \<and> plain_text pre \<and> plain_text post"
  then obtain pre post where b: "b = pre @ x @ post" "plain_text pre" "plain_text post" by blast
  have "a @ b = (a @ pre) @ x @ post" by (simp add: b)
  moreover have "plain_text (a @ pre)" using a b by simp
  ultimately show "\<exists>pre post. a @ b = pre @ x @ post \<and> plain_text pre \<and> plain_text post"
    using b(3) by blast
qed

lemma framed_here: "plain_text b \<Longrightarrow> framed x (x @ b)"
  unfolding framed_def by (rule exI [of _ "[]"], rule exI [of _ b]) simp

lemma framed_occurrences:
  "framed x s \<Longrightarrow> \<exists>post. plain_text post \<and>
     occurrences (CHR 0xF0 # p) s = occurrences (CHR 0xF0 # p) (x @ post)"
  unfolding framed_def by (auto simp: occurrences_plain)

lemma card_framed:
  assumes "plain_fields f"
  shows "framed (accessIconsBlock (getAccessTypeIcons (accessType f))) (generateCard tz f)"
  unfolding generateCard_def Let_def
  apply (intro framed_here framed_skip)
  using assms
  apply (simp_all add: plain_fields_def plain_join plain_generateAddressList split: option.splits)
  done

lemma icon_counts:
  assumes "plain_fields f"
  shows "occurrences lock_icon (generateCard tz f) =
           (if accessType f = Some ''gated'' \<or> accessType f = Some ''gated_paid'' then 1 else 0)"
    and "occurrences money_icon (generateCard tz f) =
           (if accessType f = Some ''gated_paid'' then 1 else 0)"
proof -
  from framed_occurrences [OF card_framed [OF assms], of _ tz]
  obtain post1 post2 where "plain_text post1" "plain_text post2"
    and "occurrences lock_icon (generateCard tz f) =
         occurrences lock_icon (accessIconsBlock (getAccessTypeIcons (accessType f)) @ post1)"
    and "occurrences money_icon (generateCard tz f) =
         occurrences money_icon (accessIconsBlock (getAccessTypeIcons (accessType f)) @ post2)"
    unfolding lock_icon_def money_icon_def by metis
  then show "occurrences lock_icon (generateCard tz f) =
           (if accessType f = Some ''gated'' \<or> accessType f = Some ''gated_paid'' then 1 else 0)"
    and "occurrences money_icon (generateCard tz f) =
           (if accessType f = Some ''gated_paid'' then 1 else 0)"
    by (simp_all add: getAccessTypeIcons_def accessIconsBlock_def lock_icon_def money_icon_def
        occurrences_plain_end)
qed

text \<open>
  Claim C5. The card of a facilitator whose \<open>accessType\<close> is \<open>open\<close> or absent has no
  access icon; with \<open>gated\<close> it has exactly one lock icon and no money icon; with
  \<open>gated_paid\<close> it has a lock icon followed by a money icon. The icons stand in the label
  row, between the label and the fee; in the card of a record with plain fields there is no
  other lock or money icon.
\<close>

theorem access_icons:
  \<open>(accessType f = None \<or> accessType f = Some ''open'' \<longrightarrow>
      accessIconsBlock (getAccessTypeIcons (accessType f)) = [] \<and>
      (plain_fields f \<longrightarrow>
         occurrences lock_icon (generateCard tz f) = 0 \<and>
         occurrences money_icon (generateCard tz f) = 0)) \<and>
   (accessType f = Some ''gated'' \<longrightarrow>
      accessIconsBlock (getAccessTypeIcons (accessType f)) =
        ''<div class="access-icons"><span class="access-icon">'' @ lock_icon @ ''</span></div>'' \<and>
      (plain_fields f \<longrightarrow>
         occurrences lock_icon (generateCard tz f) = 1 \<and>
         occurrences money_icon (generateCard tz f) = 0)) \<and>
   (accessType f = Some ''gated_paid'' \<longrightarrow>
      accessIconsBlock (getAccessTypeIcons (accessType f)) =
        ''<div class="access-icons"><span class="access-icon">'' @ lock_icon @
        ''</span><span class="access-icon">'' @ money_icon @ ''</span></div>'' \<and>
      (plain_fields f \<longrightarrow>
         occurrences lock_icon (generateCard tz f) = 1 \<and>
         occurrences money_icon (generateCard tz f) = 1)) \<and>
   sublist (label_row (accessIconsBlock (getAccessTypeIcons (accessType f))) (feeDisplay (fee f)))
     (generateCard tz f)\<close>
proof -
  have none: \<open>accessType f = None \<or> accessType f = Some ''open'' \<longrightarrow>
      accessIconsBlock (getAccessTypeIcons (accessType f)) = [] \<and>
      (plain_fields f \<longrightarrow>
         occurrences lock_icon (generateCard tz f) = 0 \<and>
         occurrences money_icon (generateCard tz f) = 0)\<close>
    using icon_counts [of f tz]
    by (auto simp: getAccessTypeIcons_def accessIconsBlock_def)
  have gated: \<open>accessType f = Some ''gated'' \<longrightarrow>
      accessIconsBlock (getAccessTypeIcons (accessType f)) =
        ''<div class="access-icons"><span class="access-icon">'' @ lock_icon @ ''</span></div>'' \<and>
      (plain_fields f \<longrightarrow>
         occurrences lock_icon (generateCard tz f) = 1 \<and>
         occurrences money_icon (generateCard tz f) = 0)\<close>
    using icon_counts [of f tz]
    by (simp add: getAccessTypeIcons_def accessIconsBlock_def)
  have paid: \<open>accessType f = Some ''gated_paid'' \<longrightarrow>
      accessIconsBlock (getAccessTypeIcons (accessType f)) =
        ''<div class="access-icons"><span class="access-icon">'' @ lock_icon @
        ''</span><span class="access-icon">'' @ money_icon @ ''</span></div>'' \<and>
      (plain_fields f \<longrightarrow>
         occurrences lock_icon (generateCard tz f) = 1 \<and>
         occurrences money_icon (generateCard tz f) = 1)\<close>
    using icon_counts [of f tz]
    by (simp add: getAccessTypeIcons_def accessIconsBlock_def)
  show ?thesis
    by (intro conjI) (rule none gated paid card_label_row)+
qed

lemma sample_plain:
  "plain_fields small_facilitator" "plain_fields gated_facilitator" "plain_fields large_facilitator"
  by (simp_all add: plain_fields_def small_facilitator_def gated_facilitator_def
      large_facilitator_def sample_metadata_def dated_address_def undated_address_def)

theorem access_icons_witness:
  "plain_fields small_facilitator \<and> accessType small_facilitator = None \<and>
   occurrences lock_icon (generateCard utc small_facilitator) = 0 \<and>
   occurrences money_icon (generateCard utc small_facilitator) = 0 \<and>
   plain_fields gated_facilitator \<and> accessType gated_facilitator = Some ''gated'' \<and>
   occurrences lock_icon (generateCard utc gated_facilitator) = 1 \<and>
   occurrences money_icon (generateCard utc gated_facilitator) = 0 \<and>
   plain_fields large_facilitator \<and> accessType large_facilitator = Some ''gated_paid'' \<and>
   occurrences lock_icon (generateCard utc large_facilitator) = 1 \<and>
   occurrences money_icon (generateCard utc large_facilitator) = 1"
proof -
  have a: "accessType small_facilitator = None" "accessType gated_facilitator = Some ''gated''"
    "accessType large_facilitator = Some ''gated_paid''"
    by (simp_all add: small_facilitator_def gated_facilitator_def large_facilitator_def)
  from access_icons [of small_facilitator utc] a(1) sample_plain(1)
  have 1: "occurrences lock_icon (generateCard utc small_facilitator) = 0 \<and>
    occurrences money_icon (generateCard utc small_facilitator) = 0" by blast
  from access_icons [of gated_facilitator utc] a(2) sample_plain(2)
  have 2: "occurrences lock_icon (generateCard utc gated_facilitator) = 1 \<and>
    occurrences money_icon (generateCard utc gated_facilitator) = 0" by blast
  from access_icons [of large_facilitator utc] a(3) sample_plain(3)
  have 3: "occurrences lock_icon (generateCard utc large_facilitator) = 1 \<and>
    occurrences money_icon (generateCard utc large_facilitator) = 1" by blast
  from 1 2 3 a sample_plain show ?thesis by blast
qed

section \<open>Fee display\<close>

lemma nat_toString_length: "0 < length (nat_toString n)"
  by (subst nat_toString.simps) simp

lemma nat_toString_length1 [simp]: "Suc 0 \<le> length (nat_toString n)"
  using nat_toString_length [of n] by linarith

lemma digit_char_zero: "d < 10 \<Longrightarrow> digit_char d = CHR ''0'' \<longleftrightarrow> d = 0"
proof -
  assume "d < 10"
  then have "d = 0 \<or> d = 1 \<or> d = 2 \<or> d = 3 \<or> d = 4 \<or> d = 5 \<or> d = 6 \<or> d = 7 \<or> d = 8 \<or> d = 9"
    by arith
  then show ?thesis by (auto simp: digit_char_def)
qed

lemma nat_toString_zero: "nat_toString s = ''0'' \<longleftrightarrow> s = 0"
proof (cases "s < 10")
  case True
  then show ?thesis by (subst nat_toString.simps) (simp add: digit_char_zero)
next
  case False
  have "1 < length (nat_toString s)"
    using False nat_toString_length [of "s div 10"] by (subst nat_toString.simps) simp
  with False show ?thesis by auto
qed

lemma strip_zeros_zero: "strip_zeros m z = (0, z') \<Longrightarrow> m = 0 \<and> z' = z"
proof (induction m z rule: strip_zeros.induct)
  case (1 s z)
  show ?case
  proof (cases "0 < s \<and> s mod 10 = 0")
    case True
    with 1 have "s div 10 = 0" by (subst (asm) (2) strip_zeros.simps) simp
    with True show ?thesis by auto
  next
    case False
    with 1(2) show ?thesis by (subst (asm) strip_zeros.simps) simp
  qed
qed

lemma decimal_scale_mono: "decimal_scale fuel x e = (m, e') \<Longrightarrow> e \<le> e'"
  by (induction fuel x e rule: decimal_scale.induct) (auto split: if_splits)

lemma decimal_scale_same:
  "0 < fuel \<Longrightarrow> decimal_scale fuel x e = (m, e) \<Longrightarrow> of_int \<lfloor>x\<rfloor> = x \<and> m = nat \<lfloor>x\<rfloor>"
  by (cases fuel) (auto split: if_splits dest: decimal_scale_mono)

lemma positive_toString_not_zero:
  assumes "0 < x"
  shows "positive_toString x \<noteq> ''0''"
proof
  assume eq: "positive_toString x = ''0''"
  obtain m e where me: "decimal_scale 400 x 0 = (m, e)" by (cases "decimal_scale 400 x 0")
  obtain s z where sz: "strip_zeros m 0 = (s, z)" by (cases "strip_zeros m 0")
  define digits where "digits = nat_toString s"
  define k where "k = int (length digits)"
  define n where "n = k + int z - int e"
  have k: "1 \<le> k" using nat_toString_length [of s] unfolding k_def digits_def by linarith
  have ex: "3 \<le> length (exponent_part n)"
    by (simp add: exponent_part_def)
  have pt: "positive_toString x =
     (if k \<le> n \<and> n \<le> 21 then digits @ replicate (nat (n - k)) CHR ''0''
      else if 0 < n \<and> n \<le> 21 then take (nat n) digits @ ''.'' @ drop (nat n) digits
      else if - 6 < n \<and> n \<le> 0 then ''0.'' @ replicate (nat (- n)) CHR ''0'' @ digits
      else if k = 1 then digits @ exponent_part n
      else take 1 digits @ ''.'' @ drop 1 digits @ exponent_part n)"
    by (simp add: positive_toString_def me sz Let_def digits_def k_def n_def)
  have len: "length (positive_toString x) = 1" by (simp add: eq)
  have first: "k \<le> n \<and> n \<le> 21"
  proof (rule ccontr)
    assume "\<not> (k \<le> n \<and> n \<le> 21)"
    with pt len k ex show False
      by (auto simp: k_def split: if_splits)
  qed
  with pt eq have d: "digits @ replicate (nat (n - k)) CHR ''0'' = ''0''" by simp
  with len first k have "n = k" "digits = ''0''"
    by (auto simp: k_def append_eq_Cons_conv)
  then have "s = 0" "int z = int e"
    by (simp_all add: digits_def nat_toString_zero n_def)
  with sz strip_zeros_zero [of m 0 z] have "m = 0" "e = 0" by simp_all
  with me decimal_scale_same [of 400 x 0 m] have "of_int \<lfloor>x\<rfloor> = x" "nat \<lfloor>x\<rfloor> = 0" by simp_all
  then have "x \<le> 0"
    by (metis nat_le_0 of_int_le_0_iff order_refl zero_less_nat_eq not_le)
  with assms show False by simp
qed

lemma ToString_not_zero: "greater_than_zero v \<Longrightarrow> ToString v \<noteq> ''0''"
  using positive_toString_not_zero
  by (induction v rule: ToString.induct) (auto simp: Number_toString_def)

lemma feeDisplay_zero_iff:
  \<open>feeDisplay v = ''<span class="fee-display">0% Fee</span>'' \<longleftrightarrow> \<not> greater_than_zero v\<close>
  using ToString_not_zero [of v] by (auto simp: feeDisplay_def)







lemma Number_toString_2_5: "Number_toString (5 / 2) = ''2.5''"
  by code_simp



lemma card_start_paid_iff:
  "prefix (card_start f ''paid'') (generateCard tz f) \<longleftrightarrow> \<not> strict_equals_zero (fee f)"
proof
  assume p: "prefix (card_start f ''paid'') (generateCard tz f)"
  show "\<not> strict_equals_zero (fee f)"
  proof
    assume "strict_equals_zero (fee f)"
    with card_starts [of f tz] have "prefix (card_start f ''free'') (generateCard tz f)" by simp
    with p have "prefix (card_start f ''paid'') (card_start f ''free'')"
      by (rule prefix_length_prefix) (simp add: card_start_def)
    then show False by (simp add: card_start_def)
  qed
next
  assume "\<not> strict_equals_zero (fee f)"
  with card_starts [of f tz] show "prefix (card_start f ''paid'') (generateCard tz f)" by simp
qed

text \<open>
  The two tests of the fee disagree where the fee is neither above zero nor zero: on a fee
  below zero, on \<open>NaN\<close>, and on a record with no fee.
\<close>

lemma fee_tests_disagree:
  "\<not> greater_than_zero v \<and> \<not> strict_equals_zero v \<longleftrightarrow>
   negative_fee v \<or> v = Some NaN \<or> v = None"
  by (induction v rule: negative_fee.induct) auto

lemma sample_no_icons:
  "accessIconsBlock (getAccessTypeIcons (accessType negative_fee_facilitator)) = []"
  "accessIconsBlock (getAccessTypeIcons (accessType nan_fee_facilitator)) = []"
  "accessIconsBlock (getAccessTypeIcons (accessType no_fee_facilitator)) = []"
  by (simp_all add: negative_fee_facilitator_def nan_fee_facilitator_def no_fee_facilitator_def
      small_facilitator_def getAccessTypeIcons_def accessIconsBlock_def)

text \<open>
  Claim C10, as stated: the card of a facilitator with a fee below zero shows \<open>0% Fee\<close>
  while its \<open>data-fee\<close> attribute is \<open>paid\<close>, and the two tests of the fee, \<open>fee > 0\<close> for the
  text and \<open>fee === 0\<close> for the attribute, disagree on the negative fees and on no other. The
  last part does not hold: the card of a facilitator whose fee is \<open>NaN\<close>, and the card of one
  whose record has no fee, show \<open>0% Fee\<close> with the attribute \<open>paid\<close> too, and neither fee is
  negative.
\<close>

theorem mismatch_without_negative_fee:
  \<open>\<not> negative_fee (fee nan_fee_facilitator) \<and>
   prefix (card_start nan_fee_facilitator ''paid'') (generateCard utc nan_fee_facilitator) \<and>
   sublist (label_row [] ''<span class="fee-display">0% Fee</span>'')
     (generateCard utc nan_fee_facilitator) \<and>
   \<not> negative_fee (fee no_fee_facilitator) \<and>
   prefix (card_start no_fee_facilitator ''paid'') (generateCard utc no_fee_facilitator) \<and>
   sublist (label_row [] ''<span class="fee-display">0% Fee</span>'')
     (generateCard utc no_fee_facilitator)\<close>
proof -
  have n: "fee nan_fee_facilitator = Some NaN" and u: "fee no_fee_facilitator = None"
    by (simp_all add: nan_fee_facilitator_def no_fee_facilitator_def)
  have fn: \<open>feeDisplay (fee nan_fee_facilitator) = ''<span class="fee-display">0% Fee</span>''\<close>
    and fu: \<open>feeDisplay (fee no_fee_facilitator) = ''<span class="fee-display">0% Fee</span>''\<close>
    by (simp_all add: n u feeDisplay_zero_iff)
  have 1: "\<not> negative_fee (fee nan_fee_facilitator)" by (simp add: n)
  have 2: "prefix (card_start nan_fee_facilitator ''paid'') (generateCard utc nan_fee_facilitator)"
    by (simp add: card_start_paid_iff n)
  have 3: \<open>sublist (label_row [] ''<span class="fee-display">0% Fee</span>'')
     (generateCard utc nan_fee_facilitator)\<close>
    using card_label_row [of nan_fee_facilitator utc] unfolding fn sample_no_icons .
  have 4: "\<not> negative_fee (fee no_fee_facilitator)" by (simp add: u)
  have 5: "prefix (card_start no_fee_facilitator ''paid'') (generateCard utc no_fee_facilitator)"
    by (simp add: card_start_paid_iff u)
  have 6: \<open>sublist (label_row [] ''<span class="fee-display">0% Fee</span>'')
     (generateCard utc no_fee_facilitator)\<close>
    using card_label_row [of no_fee_facilitator utc] unfolding fu sample_no_icons .
  from 1 2 3 4 5 6 show ?thesis by (intro conjI)
qed

text \<open>
  Claim C10, amended. The card of a facilitator with a fee below zero shows \<open>0% Fee\<close> while
  its \<open>data-fee\<close> attribute is \<open>paid\<close>. The text is chosen by \<open>fee > 0\<close> and the attribute by
  \<open>fee === 0\<close>, and a card has the text \<open>0% Fee\<close> together with the attribute \<open>paid\<close> exactly
  when the fee is negative, is \<open>NaN\<close>, or is missing from the record.
\<close>

theorem fee_mismatch:
  \<open>(negative_fee (fee f) \<longrightarrow>
      prefix (card_start f ''paid'') (generateCard tz f) \<and>
      sublist (label_row (accessIconsBlock (getAccessTypeIcons (accessType f)))
                 ''<span class="fee-display">0% Fee</span>'') (generateCard tz f)) \<and>
   (feeDisplay (fee f) = ''<span class="fee-display">0% Fee</span>'' \<and>
    prefix (card_start f ''paid'') (generateCard tz f) \<longleftrightarrow>
      negative_fee (fee f) \<or> fee f = Some NaN \<or> fee f = None)\<close>
proof -
  have iff: \<open>feeDisplay (fee f) = ''<span class="fee-display">0% Fee</span>'' \<and>
    prefix (card_start f ''paid'') (generateCard tz f) \<longleftrightarrow>
      negative_fee (fee f) \<or> fee f = Some NaN \<or> fee f = None\<close>
    unfolding feeDisplay_zero_iff card_start_paid_iff by (rule fee_tests_disagree)
  have fd: \<open>feeDisplay (fee f) = ''<span class="fee-display">0% Fee</span>''\<close>
    and start: "prefix (card_start f ''paid'') (generateCard tz f)" if "negative_fee (fee f)"
    using that iff by blast+
  have row: \<open>sublist (label_row (accessIconsBlock (getAccessTypeIcons (accessType f)))
                 ''<span class="fee-display">0% Fee</span>'') (generateCard tz f)\<close>
    if "negative_fee (fee f)"
    using card_label_row [of f tz] unfolding fd [OF that] .
  from row start iff show ?thesis by blast
qed

theorem fee_mismatch_witness:
  \<open>negative_fee (fee negative_fee_facilitator) \<and>
   prefix (card_start negative_fee_facilitator ''paid'') (generateCard utc negative_fee_facilitator) \<and>
   sublist (label_row [] ''<span class="fee-display">0% Fee</span>'')
     (generateCard utc negative_fee_facilitator)\<close>
proof -
  have n: "negative_fee (fee negative_fee_facilitator)"
    by (simp add: negative_fee_facilitator_def)
  from fee_mismatch [of negative_fee_facilitator utc] n
  have "prefix (card_start negative_fee_facilitator ''paid'') (generateCard utc negative_fee_facilitator)"
    and \<open>sublist (label_row (accessIconsBlock (getAccessTypeIcons (accessType negative_fee_facilitator)))
                 ''<span class="fee-display">0% Fee</span>'') (generateCard utc negative_fee_facilitator)\<close>
    by blast+
  with n sample_no_icons(1) show ?thesis by simp
qed

section \<open>Explorer links\<close>










section \<open>First transaction date\<close>

lemma fold_dates_inner:
  "fold (\<lambda>addr ds'. case dateOfFirstTransaction addr of Some d \<Rightarrow> ds' @ [d] | None \<Rightarrow> ds')
        addrs ds
   = ds @ List.map_filter dateOfFirstTransaction addrs"
  by (induction addrs arbitrary: ds) (auto simp: List.map_filter_def split: option.splits)

lemma fold_dates:
  "fold (\<lambda>addrs ds.
           fold (\<lambda>addr ds'. case dateOfFirstTransaction addr of
                               Some d \<Rightarrow> ds' @ [d] | None \<Rightarrow> ds') addrs ds)
        xss acc
   = acc @ List.map_filter dateOfFirstTransaction (concat xss)"
  by (induction xss arbitrary: acc) (auto simp: fold_dates_inner List.map_filter_def)

lemma Object_values_snd: "Object_values obj = map snd obj"
  by (simp add: Object_values_def split_def)

lemma fold_min: "fold min ds (d::int) = Min (set (d # ds))"
proof (induction ds arbitrary: d)
  case Nil
  show ?case by simp
next
  case (Cons a ds)
  have "fold min (a # ds) d = Min (set (min a d # ds))" by (simp add: Cons)
  also have "\<dots> = Min (set (d # a # ds))"
    by (cases "ds = []") (simp_all add: min.commute min.assoc min.left_commute)
  finally show ?case .
qed

text \<open>
  The date shown is the earliest of the dates that the addresses carry, as the host's time
  zone sees it, and the block is there exactly when some address carries a date.
\<close>

lemma getFirstTransactionDate_earliest:
  "getFirstTransactionDate tz f =
     (if all_dates f = [] then None
      else Some (toLocaleDateString tz (Min (set (all_dates f)))))"
  by (simp add: getFirstTransactionDate_def Let_def fold_dates Object_values_snd all_dates_def
      fold_min split: list.splits)

lemma toLocaleDateString_nonempty: "toLocaleDateString tz t \<noteq> []"
  by (simp add: toLocaleDateString_def month_short_def Let_def split: prod.splits)

lemma all_dates_empty_iff:
  "all_dates f = [] \<longleftrightarrow>
   (\<forall>(network, addrs) \<in> set (addresses f). \<forall>addr \<in> set addrs. dateOfFirstTransaction addr = None)"
  by (auto simp: all_dates_def List.map_filter_def filter_empty_conv) 

lemma first_transaction_block_iff:
  "firstTransactionBlock (getFirstTransactionDate tz f) \<noteq> [] \<longleftrightarrow> all_dates f \<noteq> []"
  by (simp add: getFirstTransactionDate_earliest firstTransactionBlock_def
      toLocaleDateString_nonempty)

lemma card_ends:
  "suffix (card_end (firstTransactionBlock (getFirstTransactionDate tz f)) (docsUrl (metadata f)))
     (generateCard tz f)"
  unfolding card_end_def generateCard_def Let_def
  by (rule suffix_order.refl | rule suffix_appendI)+

text \<open>
  The first of March 2025, midnight UTC, is printed as that day by a host whose zone is at
  UTC or up to a day ahead of it, and as the day before by a host whose zone is behind UTC.
\<close>

lemma march_day: "civil_from_days 20148 = (2025, 3, 1)"
  by code_simp

lemma march_text:
  "month_short 3 @ '' '' @ nat_toString (nat 1) @ '', '' @
   nat_toString (nat (if (2025::int) \<le> 0 then 1 - 2025 else 2025)) = ''Mar 1, 2025''"
  by code_simp

lemma march_not_behind_utc:
  assumes "0 \<le> tz date_2025_03_01" and "tz date_2025_03_01 < msPerDay"
  shows "toLocaleDateString tz date_2025_03_01 = ''Mar 1, 2025''"
proof -
  have "date_2025_03_01 = 20148 * msPerDay"
    by (simp add: date_2025_03_01_def msPerDay_def)
  then have "(date_2025_03_01 + tz date_2025_03_01) div msPerDay = 20148"
    using assms by (simp add: msPerDay_def)
  then show ?thesis
    by (simp only: toLocaleDateString_def march_day Let_def split_conv march_text)
qed


lemma february_day: "civil_from_days 20147 = (2025, 2, 28)"
  by code_simp

lemma february_text:
  "month_short 2 @ '' '' @ nat_toString (nat 28) @ '', '' @
   nat_toString (nat (if (2025::int) \<le> 0 then 1 - 2025 else 2025)) = ''Feb 28, 2025''"
  by code_simp

lemma march_behind_utc:
  assumes "- msPerDay \<le> tz date_2025_03_01" and "tz date_2025_03_01 < 0"
  shows "toLocaleDateString tz date_2025_03_01 = ''Feb 28, 2025''"
proof -
  have "date_2025_03_01 = 20148 * msPerDay"
    by (simp add: date_2025_03_01_def msPerDay_def)
  then have "(date_2025_03_01 + tz date_2025_03_01) div msPerDay = 20147"
    using assms by (simp add: msPerDay_def)
  then show ?thesis
    by (simp only: toLocaleDateString_def february_day Let_def split_conv february_text)
qed

lemma large_dates: "all_dates large_facilitator = [date_2025_11_06, date_2025_03_01]"
  by (simp add: all_dates_def large_facilitator_def dated_address_def undated_address_def
      List.map_filter_def)

lemma large_earliest: "Min (set (all_dates large_facilitator)) = date_2025_03_01"
  by (simp add: large_dates date_2025_11_06_def date_2025_03_01_def)

lemma large_dated: "all_dates large_facilitator \<noteq> []"
  by (simp add: large_dates)

lemma march_eastern: "toLocaleDateString eastern_standard date_2025_03_01 = ''Feb 28, 2025''"
  by (rule march_behind_utc) (simp_all add: eastern_standard_def msPerDay_def)

lemma march_utc: "toLocaleDateString utc date_2025_03_01 = ''Mar 1, 2025''"
  by (rule march_not_behind_utc) (simp_all add: utc_def msPerDay_def)

lemma large_first_eastern:
  "getFirstTransactionDate eastern_standard large_facilitator = Some ''Feb 28, 2025''"
  by (simp only: getFirstTransactionDate_earliest large_dated large_earliest if_False
      march_eastern)

lemma large_first_utc:
  "getFirstTransactionDate utc large_facilitator = Some ''Mar 1, 2025''"
  by (simp only: getFirstTransactionDate_earliest large_dated large_earliest if_False march_utc)

text \<open>
  Claim C4. The card has a first-transaction block exactly when an address carries a date,
  and the block shows the earliest date with abbreviated month, day and year: for the dates
  2025-11-06 and 2025-03-01, the text \<open>Mar 1, 2025\<close>. The first part holds (above). The
  text of the date is that only on a host whose zone is not behind UTC: the dates are
  midnights UTC and are printed in the zone of the host, so the card that a host on Eastern
  Standard Time renders for these two dates shows \<open>Feb 28, 2025\<close>.
\<close>

theorem first_transaction_in_host_zone:
  "getFirstTransactionDate eastern_standard large_facilitator = Some ''Feb 28, 2025'' \<and>
   suffix (card_end (firstTransactionBlock (Some ''Feb 28, 2025''))
             (docsUrl (metadata large_facilitator)))
     (generateCard eastern_standard large_facilitator) \<and>
   getFirstTransactionDate utc large_facilitator = Some ''Mar 1, 2025''"
proof -
  have c: "suffix (card_end (firstTransactionBlock (Some ''Feb 28, 2025''))
             (docsUrl (metadata large_facilitator)))
     (generateCard eastern_standard large_facilitator)"
    using card_ends [of eastern_standard large_facilitator] unfolding large_first_eastern .
  from large_first_eastern c large_first_utc show ?thesis by (intro conjI)
qed

section \<open>Template substitution\<close>

lemma split_first_None: "split_first pat s = None \<longleftrightarrow> \<not> sublist pat s"
  by (induction s) (auto simp: sublist_Cons_right)

lemma split_first_Some:
  "pat \<noteq> [] \<Longrightarrow> split_first pat s = Some (a, b) \<Longrightarrow>
   s = a @ pat @ b \<and> \<not> sublist pat (a @ butlast pat)"
proof (induction s arbitrary: a)
  case Nil
  then show ?case by (auto split: if_splits)
next
  case (Cons c cs)
  show ?case
  proof (cases "prefix pat (c # cs)")
    case True
    with Cons.prems(2) have "a = []" "b = drop (length pat) (c # cs)" by auto
    moreover from True have "c # cs = pat @ drop (length pat) (c # cs)"
      by (auto simp: prefix_def)
    moreover have "\<not> sublist pat (butlast pat)"
    proof
      assume "sublist pat (butlast pat)"
      then have "length pat \<le> length (butlast pat)" by (rule sublist_length_le)
      moreover have "0 < length pat" using Cons.prems(1) by (cases pat) simp_all
      ultimately show False by (simp del: length_greater_0_conv)
    qed
    ultimately show ?thesis by simp
  next
    case False
    with Cons.prems(2) obtain a' where s: "split_first pat cs = Some (a', b)" and a: "a = c # a'"
      by auto
    from Cons.IH [OF Cons.prems(1) s] have cs: "cs = a' @ pat @ b" and n: "\<not> sublist pat (a' @ butlast pat)"
      by simp_all
    have "\<not> prefix pat (c # a' @ butlast pat)"
    proof
      assume p: "prefix pat (c # a' @ butlast pat)"
      have "prefix (c # a' @ butlast pat) (c # cs)"
        by (simp add: cs prefixeq_butlast)
      with p have "prefix pat (c # cs)" by (rule prefix_order.trans)
      with False show False by simp
    qed
    with n have "\<not> sublist pat (c # a' @ butlast pat)"
      by (simp add: sublist_Cons_right)
    with cs a show ?thesis by simp
  qed
qed

lemma GetSubstitution_char:
  "CHR ''$'' \<noteq> c \<Longrightarrow> GetSubstitution m a b (c # r) = c # GetSubstitution m a b r"
  by (cases r) simp_all

lemma GetSubstitution_append:
  "CHR ''$'' \<notin> set s \<Longrightarrow> GetSubstitution m a b (s @ t) = s @ GetSubstitution m a b t"
  by (induction s) (simp_all add: GetSubstitution_char)

lemma GetSubstitution_plain: "CHR ''$'' \<notin> set r \<Longrightarrow> GetSubstitution m a b r = r"
  using GetSubstitution_append [of r m a b "[]"] by simp

lemma String_replace_absent: "\<not> sublist pat s \<Longrightarrow> String_replace pat r s = s"
  by (simp add: String_replace_def split_first_None [symmetric])

lemma dollar_nat_toString: "CHR ''$'' \<notin> set (nat_toString n)"
  using set_nat_toString [of n] by auto

lemma generateHTML_no_placeholder:
  assumes "\<not> sublist ''{{'' template"
  shows "fst (generateHTML tz template catalog) = template"
proof -
  have "\<not> sublist (''{{'' @ rest) template" for rest
    using assms by (meson sublist_appendI sublist_order.order.trans prefix_imp_sublist prefixI)
  from this [of "''TOTAL_FACILITATORS}}''"] this [of "''TOTAL_NETWORKS}}''"]
    this [of "''TOTAL_ADDRESSES}}''"] this [of "''FACILITATOR_CARDS}}''"]
  show ?thesis
    by (simp add: generateHTML_def Let_def split_def String_replace_absent)
qed

lemma String_replace_verbatim:
  "CHR ''$'' \<notin> set r \<Longrightarrow> String_replace pat r s = replace_first pat r s"
  by (simp add: String_replace_def replace_first_def GetSubstitution_plain split: option.splits)

lemma spec_totalAddresses_mset:
  "mset xs = mset ys \<Longrightarrow> spec_totalAddresses xs = spec_totalAddresses ys"
proof -
  assume "mset xs = mset ys"
  then have "mset (map (\<lambda>f. \<Sum>(network, addrs)\<leftarrow>addresses f. length addrs) xs) =
             mset (map (\<lambda>f. \<Sum>(network, addrs)\<leftarrow>addresses f. length addrs) ys)"
    by (metis mset_map)
  then show ?thesis
    unfolding spec_totalAddresses_def by (metis sum_mset_sum_list)
qed

lemma spec_totalNetworks_mset:
  "mset xs = mset ys \<Longrightarrow> spec_totalNetworks xs = spec_totalNetworks ys"
  unfolding spec_totalNetworks_def by (metis mset_eq_setD)

lemma totals_after_sort:
  "getTotalAddresses (Array_sort compareFn catalog) = spec_totalAddresses catalog"
  "getTotalNetworks (Array_sort compareFn catalog) = spec_totalNetworks catalog"
  "length (Array_sort compareFn catalog) = length catalog"
  using spec_totalAddresses_mset [OF mset_Array_sort, of compareFn catalog]
    spec_totalNetworks_mset [OF mset_Array_sort, of compareFn catalog]
    mset_eq_length [OF mset_Array_sort, of compareFn catalog]
  by (simp_all add: getTotalAddresses_sum getTotalNetworks_card)

text \<open>
  Where the text of the cards has no dollar sign, the page is the template with the first
  occurrence of each placeholder replaced: by the number of facilitators, of distinct
  networks and of addresses of the catalog, in decimal, and by the cards.
\<close>

lemma generateHTML_plain_cards:
  assumes "CHR ''$'' \<notin> set (fst (facilitatorCards tz catalog))"
  shows "fst (generateHTML tz template catalog) =
     replace_first ''{{FACILITATOR_CARDS}}'' (fst (facilitatorCards tz catalog))
       (replace_first ''{{TOTAL_ADDRESSES}}'' (nat_toString (spec_totalAddresses catalog))
         (replace_first ''{{TOTAL_NETWORKS}}'' (nat_toString (spec_totalNetworks catalog))
           (replace_first ''{{TOTAL_FACILITATORS}}'' (nat_toString (length catalog)) template)))"
proof -
  have s: "snd (facilitatorCards tz catalog) = Array_sort compareFn catalog"
    by (simp add: facilitatorCards_def Let_def)
  show ?thesis
    unfolding generateHTML_def split_def Let_def fst_conv s totals_after_sort
    by (simp only: String_replace_verbatim [OF assms] String_replace_verbatim [OF dollar_nat_toString])
qed

lemma preceded_skip: "c \<notin> set a \<Longrightarrow> preceded c x b \<Longrightarrow> preceded c x (a @ b)"
  unfolding preceded_def
proof -
  assume a: "c \<notin> set a" and "\<exists>pre post. b = pre @ x @ post \<and> c \<notin> set pre"
  then obtain pre post where b: "b = pre @ x @ post" "c \<notin> set pre" by blast
  have "a @ b = (a @ pre) @ x @ post" by (simp add: b)
  moreover have "c \<notin> set (a @ pre)" using a b by simp
  ultimately show "\<exists>pre post. a @ b = pre @ x @ post \<and> c \<notin> set pre" by blast
qed

lemma preceded_here: "preceded c x (x @ b)"
  unfolding preceded_def by (rule exI [of _ "[]"], rule exI [of _ b]) simp

lemma dollar_name: "name (metadata dollar_facilitator) = ''Ca$$h''"
  by (simp add: dollar_facilitator_def sample_metadata_def)

lemma dollar_card:
  "preceded CHR ''$'' (name (metadata dollar_facilitator)) (generateCard utc dollar_facilitator)"
  unfolding generateCard_def Let_def
  apply (intro preceded_here preceded_skip)
  apply (simp_all add: dollar_facilitator_def small_facilitator_def sample_metadata_def
      Object_keys_def)
  done

lemma dollar_cards: "facilitatorCards utc [dollar_facilitator] =
    (generateCard utc dollar_facilitator, [dollar_facilitator])"
  by (simp add: facilitatorCards_def)

lemma dollar_page:
  "fst (generateHTML utc ''<main>{{FACILITATOR_CARDS}}</main>'' [dollar_facilitator]) =
   ''<main>'' @
   GetSubstitution ''{{FACILITATOR_CARDS}}'' ''<main>'' ''</main>''
     (generateCard utc dollar_facilitator) @
   ''</main>''"
  by (simp add: generateHTML_def dollar_cards String_replace_def)

text \<open>
  Claim C3. The compositor puts the three totals, as decimal text, and the joined cards in
  the place of the first occurrence of their placeholders, and leaves a template without a
  placeholder as it is. This holds where the cards have no dollar sign (above). The cards
  are not always put in as they are: \<open>replace\<close> expands the dollar patterns of its
  replacement text, so the page of a facilitator named \<open>Ca$$h\<close> differs from the template
  with the cards in the place of the placeholder.
\<close>

theorem cards_dollar_pattern:
  "fst (generateHTML utc ''<main>{{FACILITATOR_CARDS}}</main>'' [dollar_facilitator]) \<noteq>
   ''<main>'' @ fst (facilitatorCards utc [dollar_facilitator]) @ ''</main>''"
proof -
  from dollar_card obtain pre post where
    c: "generateCard utc dollar_facilitator = pre @ ''Ca$$h'' @ post" and p: "CHR ''$'' \<notin> set pre"
    unfolding preceded_def dollar_name by blast
  have "GetSubstitution ''{{FACILITATOR_CARDS}}'' ''<main>'' ''</main>''
          (generateCard utc dollar_facilitator) =
        pre @ ''Ca$h'' @ GetSubstitution ''{{FACILITATOR_CARDS}}'' ''<main>'' ''</main>'' post"
    unfolding c by (simp add: GetSubstitution_append [OF p] GetSubstitution_char)
  then have "GetSubstitution ''{{FACILITATOR_CARDS}}'' ''<main>'' ''</main>''
          (generateCard utc dollar_facilitator) \<noteq> generateCard utc dollar_facilitator"
    by (simp add: c)
  then show ?thesis
    unfolding dollar_page by (simp add: dollar_cards)
qed

section \<open>The page and the time zone of the host\<close>

lemma notin_append: "c \<notin> set a \<Longrightarrow> c \<notin> set b \<Longrightarrow> c \<notin> set (a @ b)"
  by simp

text \<open>
  The card of the facilitator with three addresses has no dollar sign, so the page of the
  template \<open><main>{{FACILITATOR_CARDS}}</main>\<close> holds the card as it is; and the card rendered
  at UTC differs from the card rendered on Eastern Standard Time, as they end differently.
\<close>

lemma large_address_list:
  "CHR ''$'' \<notin> set (generateAddressList large_facilitator)"
  by (simp add: generateAddressList_concat large_facilitator_def dated_address_def
      undated_address_def addressItem_def Let_def)

lemma large_card_utc: "CHR ''$'' \<notin> set (generateCard utc large_facilitator)"
  unfolding generateCard_def Let_def
  apply (intro notin_append)
  apply (simp_all add: large_first_utc large_address_list dollar_nat_toString
     firstTransactionBlock_def feeDisplay_def Number_toString_2_5 networkBadges_def
     getAccessTypeIcons_def accessIconsBlock_def lock_icon_def money_icon_def)
  apply (simp_all add: large_facilitator_def sample_metadata_def Object_keys_def
      Number_toString_2_5)
  done

lemma ends_differ:
  "\<not> suffix (card_end (firstTransactionBlock (Some ''Mar 1, 2025'')) (docsUrl (metadata large_facilitator)))
     (card_end (firstTransactionBlock (Some ''Feb 28, 2025'')) (docsUrl (metadata large_facilitator)))"
  by (simp add: suffix_to_prefix card_end_def firstTransactionBlock_def large_facilitator_def sample_metadata_def)


lemma large_card_eastern: "CHR ''$'' \<notin> set (generateCard eastern_standard large_facilitator)"
  unfolding generateCard_def Let_def
  apply (intro notin_append)
  apply (simp_all add: large_first_eastern large_address_list dollar_nat_toString
     firstTransactionBlock_def feeDisplay_def Number_toString_2_5 networkBadges_def
     getAccessTypeIcons_def accessIconsBlock_def lock_icon_def money_icon_def)
  apply (simp_all add: large_facilitator_def sample_metadata_def Object_keys_def
      Number_toString_2_5)
  done

lemma single_cards: "facilitatorCards tz [f] = (generateCard tz f, [f])"
  by (simp add: facilitatorCards_def)

lemma single_page:
  "fst (generateHTML tz ''<main>{{FACILITATOR_CARDS}}</main>'' [f]) =
   ''<main>'' @
   GetSubstitution ''{{FACILITATOR_CARDS}}'' ''<main>'' ''</main>'' (generateCard tz f) @
   ''</main>''"
  by (simp add: generateHTML_def single_cards String_replace_def)

lemma large_cards_differ:
  "generateCard utc large_facilitator \<noteq> generateCard eastern_standard large_facilitator"
proof
  assume eq: "generateCard utc large_facilitator = generateCard eastern_standard large_facilitator"
  have u: "suffix (card_end (firstTransactionBlock (Some ''Mar 1, 2025''))
                     (docsUrl (metadata large_facilitator)))
             (generateCard eastern_standard large_facilitator)"
    using card_ends [of utc large_facilitator] unfolding large_first_utc eq .
  have e: "suffix (card_end (firstTransactionBlock (Some ''Feb 28, 2025''))
                     (docsUrl (metadata large_facilitator)))
             (generateCard eastern_standard large_facilitator)"
    using card_ends [of eastern_standard large_facilitator] unfolding large_first_eastern .
  from u e have "suffix (card_end (firstTransactionBlock (Some ''Mar 1, 2025''))
                     (docsUrl (metadata large_facilitator)))
             (card_end (firstTransactionBlock (Some ''Feb 28, 2025''))
                     (docsUrl (metadata large_facilitator)))"
    by (rule suffix_length_suffix) (simp add: card_end_def firstTransactionBlock_def)
  with ends_differ show False by simp
qed

text \<open>
  Claim C8. Generation is deterministic: two runs of the pipeline on the same catalog and
  the same template give the same page, byte for byte. The page is a function of the
  template, the catalog and the time zone of the host, so two runs on hosts in one zone do
  give the same page. Two runs on hosts in different zones need not: the dates of first
  transaction are midnights UTC and are printed in the zone of the host, so for the catalog
  of the one facilitator with the dates 2025-11-06 and 2025-03-01, and one template, the
  page built on a host at UTC and the page built on a host on Eastern Standard Time differ.
\<close>

theorem page_depends_on_host_zone:
  "fst (generateHTML utc ''<main>{{FACILITATOR_CARDS}}</main>'' [large_facilitator]) \<noteq>
   fst (generateHTML eastern_standard ''<main>{{FACILITATOR_CARDS}}</main>'' [large_facilitator])"
  unfolding single_page GetSubstitution_plain [OF large_card_utc]
    GetSubstitution_plain [OF large_card_eastern]
  using large_cards_differ by simp

end
